theory Spec2Isabelle
  imports Complex_Main "HOL-Library.Word"
begin

section \<open>JavaScript strings\<close>

text \<open>
  A JavaScript string is a sequence of UTF-16 code units; \<open>length\<close>, the regular
  expressions without the \<open>u\<close> flag and \<open>trim\<close> all work on code units. Source
  literals are ASCII and are written \<open>js ''...''\<close>.
\<close>

type_synonym jschar = "16 word"
type_synonym jsstring = "jschar list"

definition cu :: "char \<Rightarrow> jschar" where
  "cu c = of_nat (of_char c)"

definition js :: "string \<Rightarrow> jsstring" where
  "js s = map cu s"

text \<open>The code units \<open>.\<close> does not match (ECMAScript LineTerminator).\<close>

definition LineTerminator :: "jschar \<Rightarrow> bool" where
  "LineTerminator c = (c = 0x0A \<or> c = 0x0D \<or> c = 0x2028 \<or> c = 0x2029)"

text \<open>ECMAScript WhiteSpace: tab, VT, FF, space, NBSP, BOM and the category Zs.\<close>

definition WhiteSpace :: "jschar \<Rightarrow> bool" where
  "WhiteSpace c = (c = 0x09 \<or> c = 0x0B \<or> c = 0x0C \<or> c = 0x20 \<or> c = 0xA0 \<or> c = 0xFEFF
     \<or> c = 0x1680 \<or> (0x2000 \<le> c \<and> c \<le> 0x200A) \<or> c = 0x202F \<or> c = 0x205F \<or> c = 0x3000)"

text \<open>\<open>String.prototype.trim\<close>: strips white space and line terminators at both ends.\<close>

definition trim :: "jsstring \<Rightarrow> jsstring" where
  "trim s =
     (let sp = (\<lambda>c. WhiteSpace c \<or> LineTerminator c)
      in rev (dropWhile sp (rev (dropWhile sp s))))"

text \<open>Decimal rendering of a non-negative integer inside a template literal.\<close>

fun Number_toString :: "nat \<Rightarrow> jsstring" where
  "Number_toString n =
     (if n < 10 then [cu CHR ''0'' + of_nat n]
      else Number_toString (n div 10) @ [cu CHR ''0'' + of_nat (n mod 10)])"

section \<open>Regular expressions\<close>

text \<open>
  The fragment of ECMAScript regular expressions the sources use, with the backtracking
  semantics of the language: a matcher returns every way of matching at the current
  position, in the order in which the engine tries them; the engine takes the first. A
  matcher state is the position, the rest of the input and the groups captured so far.
  No pattern of the sources reads a group that sits under a quantifier, so the reset of
  such groups at each iteration is not modelled.
\<close>

datatype regex =
    Chr jschar
  | Dot
  | WordCh
  | Class "(jschar \<times> jschar) list"
  | NotClass "(jschar \<times> jschar) list"
  | Bol
  | Cat "regex list"
  | Or "regex list"
  | Star regex
  | Opt regex
  | Group nat regex

type_synonym mstate = "nat \<times> jsstring \<times> (nat \<times> jsstring) list"

definition in_ranges :: "(jschar \<times> jschar) list \<Rightarrow> jschar \<Rightarrow> bool" where
  "in_ranges rs c = list_ex (\<lambda>(lo, hi). lo \<le> c \<and> c \<le> hi) rs"

fun consume :: "(jschar \<Rightarrow> bool) \<Rightarrow> mstate \<Rightarrow> mstate list" where
  "consume P (i, [], caps) = []"
| "consume P (i, c # cs, caps) = (if P c then [(i + 1, cs, caps)] else [])"

fun remaining :: "mstate \<Rightarrow> nat" where
  "remaining (i, cs, caps) = length cs"

fun capture :: "nat \<Rightarrow> mstate \<Rightarrow> mstate \<Rightarrow> mstate" where
  "capture k (i, cs, caps) (j, ds, caps') = (j, ds, (k, take (j - i) cs) # caps')"

text \<open>
  \<open>Star\<close> and \<open>Opt\<close> are the greedy \<open>*\<close> and \<open>?\<close>: one more iteration is tried
  before stopping, and an iteration that consumes nothing is rejected, as the language
  specifies for a quantifier with minimum 0. \<open>\w\<close> is \<open>[A-Za-z0-9_]\<close>; \<open>^\<close>
  (no \<open>m\<close> flag) holds at position 0 only.
\<close>

fun rmatch :: "regex \<Rightarrow> mstate \<Rightarrow> mstate list" where
  "rmatch (Chr c) st = consume (\<lambda>x. x = c) st"
| "rmatch Dot st = consume (\<lambda>x. \<not> LineTerminator x) st"
| "rmatch WordCh st =
     consume (in_ranges [(cu CHR ''A'', cu CHR ''Z''), (cu CHR ''a'', cu CHR ''z''),
                         (cu CHR ''0'', cu CHR ''9''), (cu CHR ''_'', cu CHR ''_'')]) st"
| "rmatch (Class rs) st = consume (in_ranges rs) st"
| "rmatch (NotClass rs) st = consume (\<lambda>x. \<not> in_ranges rs x) st"
| "rmatch Bol st = (if fst st = 0 then [st] else [])"
| "rmatch (Cat []) st = [st]"
| "rmatch (Cat (r # rs)) st = concat (map (rmatch (Cat rs)) (rmatch r st))"
| "rmatch (Or []) st = []"
| "rmatch (Or (r # rs)) st = rmatch r st @ rmatch (Or rs) st"
| "rmatch (Star r) st =
     concat (map (rmatch (Star r))
               (filter (\<lambda>st'. remaining st' < remaining st) (rmatch r st))) @ [st]"
| "rmatch (Opt r) st = filter (\<lambda>st'. remaining st' < remaining st) (rmatch r st) @ [st]"
| "rmatch (Group k r) st = map (capture k st) (rmatch r st)"

text \<open>A run of literal characters, \<open>r+\<close> and \<open>r{n}\<close>.\<close>

definition Str :: "string \<Rightarrow> regex" where
  "Str s = Cat (map Chr (js s))"

definition OneOrMore :: "regex \<Rightarrow> regex" where
  "OneOrMore r = Cat [r, Star r]"

definition Exactly :: "nat \<Rightarrow> regex \<Rightarrow> regex" where
  "Exactly n r = Cat (replicate n r)"

text \<open>
  \<open>s.match(r)\<close> and \<open>r.test(s)\<close> for a pattern without the \<open>g\<close> flag: the match is
  attempted at the start indices 0, 1, ... up to the length of the string, and the first
  index with a match wins. The result lists the groups; group 0 is the matched text.
\<close>

fun search :: "regex \<Rightarrow> nat \<Rightarrow> jsstring \<Rightarrow> (nat \<times> jsstring) list option" where
  "search r i cs =
     (case rmatch r (i, cs, []) of
        (j, ds, caps) # _ \<Rightarrow> Some ((0, take (j - i) cs) # caps)
      | [] \<Rightarrow> (case cs of [] \<Rightarrow> None | _ # cs' \<Rightarrow> search r (i + 1) cs'))"

definition match :: "jsstring \<Rightarrow> regex \<Rightarrow> (nat \<times> jsstring) list option" where
  "match s r = search r 0 s"

definition test :: "regex \<Rightarrow> jsstring \<Rightarrow> bool" where
  "test r s = (match s r \<noteq> None)"

section \<open>Video identifier extraction\<close>

datatype js_error = TypeError

text \<open>
  YouTubePlayer.tsx, \<open>getVideoId\<close>:
  \<^verbatim>\<open>/^.*(youtu.be\/|v\/|u\/\w\/|embed\/|watch\?v=|&v=)([^#&?]*).*/\<close>
  (the dot of \<open>youtu.be\<close> is not escaped). Reading \<open>match[2].length\<close> of a group that
  did not take part would raise a TypeError.
\<close>

definition getVideoId_regExp :: regex where
  "getVideoId_regExp =
     Cat [Bol, Star Dot,
          Group 1 (Or [Cat [Str ''youtu'', Dot, Str ''be/''],
                       Str ''v/'',
                       Cat [Str ''u/'', WordCh, Str ''/''],
                       Str ''embed/'',
                       Str ''watch?v='',
                       Str ''&v='']),
          Group 2 (Star (NotClass [(cu CHR ''#'', cu CHR ''#''), (cu CHR ''&'', cu CHR ''&''),
                                   (cu CHR ''?'', cu CHR ''?'')])),
          Star Dot]"

definition getVideoId :: "jsstring \<Rightarrow> js_error + jsstring option" where
  "getVideoId url =
     (case match url getVideoId_regExp of
        None \<Rightarrow> Inr None
      | Some m \<Rightarrow>
          (case map_of m 2 of
             None \<Rightarrow> Inl TypeError
           | Some g \<Rightarrow> Inr (if length g = 11 then Some g else None)))"

text \<open>
  VideoSuggestions.tsx, \<open>extractVideoId\<close>: three patterns tried in order, each
  capturing exactly eleven characters of \<open>[a-zA-Z0-9_-]\<close>.
\<close>

definition idChar :: regex where
  "idChar = Class [(cu CHR ''a'', cu CHR ''z''), (cu CHR ''A'', cu CHR ''Z''),
                   (cu CHR ''0'', cu CHR ''9''), (cu CHR ''_'', cu CHR ''_''),
                   (cu CHR ''-'', cu CHR ''-'')]"

definition extractVideoId_patterns :: "regex list" where
  "extractVideoId_patterns =
     [Cat [Class [(cu CHR ''?'', cu CHR ''?''), (cu CHR ''&'', cu CHR ''&'')], Str ''v='',
           Group 1 (Exactly 11 idChar)],
      Cat [Str ''youtu.be/'', Group 1 (Exactly 11 idChar)],
      Cat [Str ''youtube.com/embed/'', Group 1 (Exactly 11 idChar)]]"

fun firstMatch :: "regex list \<Rightarrow> jsstring \<Rightarrow> jsstring option" where
  "firstMatch [] url = None"
| "firstMatch (pattern # patterns) url =
     (case match url pattern of
        Some m \<Rightarrow> map_of m 1
      | None \<Rightarrow> firstMatch patterns url)"

definition extractVideoId :: "jsstring \<Rightarrow> jsstring option" where
  "extractVideoId url = firstMatch extractVideoId_patterns url"

section \<open>JSON values and the fetch interface\<close>

text \<open>
  A value produced by \<open>JSON.parse\<close>. A number is carried as the real value of the parsed
  double (the sources only test it for truthiness and type); an object is the list of its
  own properties, each name once (a lookup takes the first entry).
\<close>

datatype json =
    JNull
  | JBool bool
  | JNum real
  | JStr jsstring
  | JArr "json list"
  | JObj "(jsstring \<times> json) list"

text \<open>
  JavaScript truthiness; \<open>None\<close> stands for \<open>undefined\<close>.
\<close>

fun truthy :: "json option \<Rightarrow> bool" where
  "truthy None = False"
| "truthy (Some JNull) = False"
| "truthy (Some (JBool b)) = b"
| "truthy (Some (JNum x)) = (x \<noteq> 0)"
| "truthy (Some (JStr s)) = (s \<noteq> [])"
| "truthy (Some (JArr xs)) = True"
| "truthy (Some (JObj kvs)) = True"

text \<open>The \<open>typeof\<close> operator.\<close>

fun typeof :: "json option \<Rightarrow> jsstring" where
  "typeof None = js ''undefined''"
| "typeof (Some JNull) = js ''object''"
| "typeof (Some (JBool b)) = js ''boolean''"
| "typeof (Some (JNum x)) = js ''number''"
| "typeof (Some (JStr s)) = js ''string''"
| "typeof (Some (JArr xs)) = js ''object''"
| "typeof (Some (JObj kvs)) = js ''object''"

text \<open>
  Reading a property \<open>v.k\<close> of a value that is neither \<open>null\<close> nor \<open>undefined\<close>, for
  the property names the sources read (\<open>question\<close>, \<open>detail\<close>, \<open>success\<close>,
  \<open>message\<close>, \<open>answer\<close>, \<open>videos\<close>, \<open>choices\<close>, \<open>content\<close>): none of them is
  inherited, so only an object can have them.
\<close>

fun get :: "json \<Rightarrow> jsstring \<Rightarrow> json option" where
  "get (JObj kvs) k = map_of kvs k"
| "get v k = None"

text \<open>Reading the element \<open>v[0]\<close> of a value that is neither \<open>null\<close> nor \<open>undefined\<close>.\<close>

fun index0 :: "json \<Rightarrow> json option" where
  "index0 (JArr []) = None"
| "index0 (JArr (x # xs)) = Some x"
| "index0 (JObj kvs) = map_of kvs (js ''0'')"
| "index0 (JStr []) = None"
| "index0 (JStr (c # cs)) = Some (JStr [c])"
| "index0 v = None"

text \<open>Optional chaining \<open>v?.k\<close>: \<open>undefined\<close> when \<open>v\<close> is \<open>null\<close> or \<open>undefined\<close>.\<close>

fun chain :: "json option \<Rightarrow> (json \<Rightarrow> json option) \<Rightarrow> json option" where
  "chain None f = None"
| "chain (Some JNull) f = None"
| "chain (Some v) f = f v"

text \<open>\<open>a || b\<close> on values.\<close>

definition orElse :: "json option \<Rightarrow> json \<Rightarrow> json" where
  "orElse a b = (case a of Some v \<Rightarrow> if truthy a then v else b | None \<Rightarrow> b)"

text \<open>
  What a \<open>catch\<close> clause receives: an \<open>Error\<close> instance with its message, or any other
  value. The message of the TypeError raised by reading or destructuring a property of
  \<open>null\<close> is the engine's own and names the property; the wording here is V8's (the
  engine of Deno and Chrome), \<open>0x27\<close> being the apostrophe.
\<close>

datatype 'm thrown = Error 'm | NonError

definition null_property_message :: "string \<Rightarrow> jsstring" where
  "null_property_message k =
     js ''Cannot read properties of null (reading '' @ [0x27] @ js k @ [0x27] @ js '')''"

definition null_destructure_message :: "string \<Rightarrow> jsstring" where
  "null_destructure_message k =
     js ''Cannot destructure property '' @ [0x27] @ js k @ [0x27] @ js '' of ''
       @ [0x27] @ js ''(intermediate value)'' @ [0x27] @ js '' as it is null.''"

text \<open>
  The result of \<open>.json()\<close> on a request or response: the parsed value, or a rejection
  with the error's message when the body is not JSON.
\<close>

datatype body = NotJson jsstring | Json json

record response =
  status :: nat
  json_body :: body

definition ok :: "response \<Rightarrow> bool" where
  "ok r = (200 \<le> status r \<and> status r \<le> 299)"

datatype fetch_outcome = Rejects "jsstring thrown" | Resolves response

record fetch_request =
  url :: jsstring
  http_method :: jsstring
  headers :: "(jsstring \<times> jsstring) list"
  payload :: "json option"

section \<open>The answer proxy function\<close>

record incoming =
  req_method :: jsstring
  req_json :: body

record outgoing =
  res_status :: nat
  res_headers :: "(jsstring \<times> jsstring) list"
  res_body :: "json option"

definition corsHeaders :: "(jsstring \<times> jsstring) list" where
  "corsHeaders =
     [(js ''Access-Control-Allow-Origin'', js ''*''),
      (js ''Access-Control-Allow-Headers'',
       js ''authorization, x-client-info, apikey, content-type'')]"

definition system_prompt :: jsstring where
  "system_prompt = js ''You are a helpful video Q&A assistant. Provide clear, informative, and engaging answers to questions about video content. Be concise but thorough.''"

definition gateway_request :: "jsstring \<Rightarrow> json \<Rightarrow> fetch_request" where
  "gateway_request LOVABLE_API_KEY question =
     \<lparr>url = js ''https://ai.gateway.lovable.dev/v1/chat/completions'',
      http_method = js ''POST'',
      headers = [(js ''Authorization'', js ''Bearer '' @ LOVABLE_API_KEY),
                 (js ''Content-Type'', js ''application/json'')],
      payload = Some (JObj
        [(js ''model'', JStr (js ''google/gemini-2.5-flash'')),
         (js ''messages'', JArr
            [JObj [(js ''role'', JStr (js ''system'')), (js ''content'', JStr system_prompt)],
             JObj [(js ''role'', JStr (js ''user'')), (js ''content'', question)]])])\<rparr>"

text \<open>
  The part of the handler after a successful upstream \<open>fetch\<close>:
  \<open>data.choices?.[0]?.message?.content\<close> raises when \<open>data\<close> itself is \<open>null\<close>.
\<close>

definition read_answer :: "response \<Rightarrow> jsstring thrown + json" where
  "read_answer response =
     (if \<not> ok response then
        Inl (Error (js ''AI API error: '' @ Number_toString (status response)))
      else
        (case json_body response of
           NotJson msg \<Rightarrow> Inl (Error msg)
         | Json JNull \<Rightarrow> Inl (Error (null_property_message ''choices''))
         | Json data \<Rightarrow>
             (let answer =
                    chain (chain (chain (get data (js ''choices'')) index0)
                                 (\<lambda>v. get v (js ''message'')))
                          (\<lambda>v. get v (js ''content''))
              in case answer of
                   None \<Rightarrow> Inl (Error (js ''No answer received from AI''))
                 | Some a \<Rightarrow>
                     if \<not> truthy answer then Inl (Error (js ''No answer received from AI''))
                     else Inr a)))"

text \<open>
  The \<open>try\<close> block. The result carries the requests sent to the gateway. \<open>env\<close> is
  \<open>Deno.env.get\<close> and \<open>fetch\<close> the network. Destructuring \<open>{ question }\<close> from
  \<open>null\<close> raises a TypeError; from any other value that is not an object it gives
  \<open>undefined\<close>.
\<close>

definition serve_try ::
    "(jsstring \<Rightarrow> jsstring option) \<Rightarrow> (fetch_request \<Rightarrow> fetch_outcome) \<Rightarrow> incoming
     \<Rightarrow> (jsstring thrown + json) \<times> fetch_request list" where
  "serve_try env fetch req =
     (case req_json req of
        NotJson msg \<Rightarrow> (Inl (Error msg), [])
      | Json JNull \<Rightarrow> (Inl (Error (null_destructure_message ''question'')), [])
      | Json b \<Rightarrow>
          (case get b (js ''question'') of
             None \<Rightarrow> (Inl (Error (js ''Question is required and must be a string'')), [])
           | Some question \<Rightarrow>
               if \<not> truthy (Some question) \<or> typeof (Some question) \<noteq> js ''string'' then
                 (Inl (Error (js ''Question is required and must be a string'')), [])
               else
                 (case env (js ''LOVABLE_API_KEY'') of
                    None \<Rightarrow> (Inl (Error (js ''LOVABLE_API_KEY is not configured'')), [])
                  | Some LOVABLE_API_KEY \<Rightarrow>
                      if LOVABLE_API_KEY = [] then
                        (Inl (Error (js ''LOVABLE_API_KEY is not configured'')), [])
                      else
                        (let r = gateway_request LOVABLE_API_KEY question
                         in case fetch r of
                              Rejects e \<Rightarrow> (Inl e, [r])
                            | Resolves response \<Rightarrow> (read_answer response, [r])))))"

definition serve ::
    "(jsstring \<Rightarrow> jsstring option) \<Rightarrow> (fetch_request \<Rightarrow> fetch_outcome) \<Rightarrow> incoming
     \<Rightarrow> outgoing \<times> fetch_request list" where
  "serve env fetch req =
     (if req_method req = js ''OPTIONS'' then
        (\<lparr>res_status = 200, res_headers = corsHeaders, res_body = None\<rparr>, [])
      else
        (case serve_try env fetch req of
           (Inr answer, sent) \<Rightarrow>
             (\<lparr>res_status = 200,
               res_headers = corsHeaders @ [(js ''Content-Type'', js ''application/json'')],
               res_body = Some (JObj [(js ''answer'', answer)])\<rparr>, sent)
         | (Inl error, sent) \<Rightarrow>
             (\<lparr>res_status = 500,
               res_headers = corsHeaders @ [(js ''Content-Type'', js ''application/json'')],
               res_body = Some (JObj [(js ''error'',
                 JStr (case error of Error m \<Rightarrow> m | NonError \<Rightarrow> js ''An unknown error occurred''))])\<rparr>,
              sent)))"

text \<open>A request body that carries a \<open>question\<close> that is a non-empty string.\<close>

definition has_string_question :: "body \<Rightarrow> bool" where
  "has_string_question b =
     (case b of
        Json (JObj kvs) \<Rightarrow>
          (case map_of kvs (js ''question'') of Some (JStr q) \<Rightarrow> q \<noteq> [] | _ \<Rightarrow> False)
      | _ \<Rightarrow> False)"

section \<open>The page controller (Index)\<close>

text \<open>
  The text of a notification: a string, or the string form of a JSON value that is not a
  string (the \<open>Error\<close> constructor applies \<open>String\<close> to its argument; the rendering
  of numbers and objects is left symbolic), or a value handed to the notification as it
  is.
\<close>

datatype message = Text jsstring | Coerced json | Raw json

record toast =
  title :: jsstring
  description :: message
  variant :: "jsstring option"

record page =
  answer :: json
  isLoading :: bool
  videoUrl :: jsstring
  urlInput :: jsstring
  toasts :: "toast list"

definition DEFAULT_VIDEO_URL :: jsstring where
  "DEFAULT_VIDEO_URL = js ''https://www.youtube.com/watch?v=dQw4w9WgXcQ''"

definition initial_page :: page where
  "initial_page =
     \<lparr>answer = JStr [], isLoading = False, videoUrl = DEFAULT_VIDEO_URL, urlInput = [],
      toasts = []\<rparr>"

text \<open>\<open>import.meta.env.VITE_API_URL || "http://localhost:8000"\<close>\<close>

definition API_URL :: "jsstring option \<Rightarrow> jsstring" where
  "API_URL VITE_API_URL =
     (case VITE_API_URL of
        Some u \<Rightarrow> if u \<noteq> [] then u else js ''http://localhost:8000''
      | None \<Rightarrow> js ''http://localhost:8000'')"

text \<open>
  \<open>isValidYouTubeUrl\<close>:
  \<^verbatim>\<open>/^https?:\/\/(www\.)?(youtube\.com|youtu\.be)\/.+/\<close> and
  \<^verbatim>\<open>/^https?:\/\/youtube\.com\/embed\/.+/\<close>.
\<close>

definition isValidYouTubeUrl :: "jsstring \<Rightarrow> bool" where
  "isValidYouTubeUrl u =
     (let patterns =
        [Cat [Bol, Str ''http'', Opt (Chr (cu CHR ''s'')), Str ''://'', Opt (Group 1 (Str ''www.'')),
              Group 2 (Or [Str ''youtube.com'', Str ''youtu.be'']), Str ''/'', OneOrMore Dot],
         Cat [Bol, Str ''http'', Opt (Chr (cu CHR ''s'')), Str ''://youtube.com/embed/'', OneOrMore Dot]]
      in list_ex (\<lambda>pattern. test pattern u) patterns)"

text \<open>\<open>new Error(v)\<close>: the message is \<open>v\<close> for a string and \<open>String(v)\<close> otherwise.\<close>

definition new_Error :: "json \<Rightarrow> message thrown" where
  "new_Error v = Error (case v of JStr s \<Rightarrow> Text s | _ \<Rightarrow> Coerced v)"

text \<open>
  The error raised for a response that is not OK, in both handlers:
  \<^verbatim>\<open>await response.json().catch(() => ({ detail: "Unknown error" }))\<close>, then
  \<^verbatim>\<open>throw new Error(errorData.detail || `HTTP error! status: ${response.status}`)\<close>.
  A body that parses to \<open>null\<close> makes \<open>errorData.detail\<close> raise a TypeError instead.
\<close>

definition http_error :: "response \<Rightarrow> message thrown" where
  "http_error response =
     (let errorData =
            (case json_body response of
               NotJson msg \<Rightarrow> JObj [(js ''detail'', JStr (js ''Unknown error''))]
             | Json v \<Rightarrow> v)
      in case errorData of
           JNull \<Rightarrow> Error (Text (null_property_message ''detail''))
         | _ \<Rightarrow> new_Error (orElse (get errorData (js ''detail''))
                   (JStr (js ''HTTP error! status: '' @ Number_toString (status response)))))"

text \<open>
  \<open>error instanceof Error ? error.message : fallback\<close> in the \<open>catch\<close> clauses.
\<close>

definition message_of :: "message thrown \<Rightarrow> jsstring \<Rightarrow> message" where
  "message_of error fallback = (case error of Error m \<Rightarrow> m | NonError \<Rightarrow> Text fallback)"

definition post :: "jsstring \<Rightarrow> json \<Rightarrow> fetch_request" where
  "post u v =
     \<lparr>url = u, http_method = js ''POST'',
      headers = [(js ''Content-Type'', js ''application/json'')], payload = Some v\<rparr>"

subsection \<open>handleUrlChange\<close>

text \<open>
  The handler up to its \<open>await fetch(...)\<close>: the two validations, each ending the
  handler with a notification, then \<open>setIsLoading(true); setAnswer("")\<close> and the
  request. The result is the state at that point and the request, if one is sent.
\<close>

definition handleUrlChange_begin :: "jsstring option \<Rightarrow> page \<Rightarrow> page \<times> fetch_request option" where
  "handleUrlChange_begin VITE_API_URL s =
     (let trimmedUrl = trim (urlInput s)
      in if trimmedUrl = [] then
           (s\<lparr>toasts := toasts s @
               [\<lparr>title = js ''Error'', description = Text (js ''Please enter a YouTube URL''),
                 variant = Some (js ''destructive'')\<rparr>]\<rparr>, None)
         else if \<not> isValidYouTubeUrl trimmedUrl then
           (s\<lparr>toasts := toasts s @
               [\<lparr>title = js ''Invalid URL'',
                 description = Text (js ''Please enter a valid YouTube URL''),
                 variant = Some (js ''destructive'')\<rparr>]\<rparr>, None)
         else
           (s\<lparr>isLoading := True, answer := JStr []\<rparr>,
            Some (post (API_URL VITE_API_URL @ js ''/process-video'')
                       (JObj [(js ''video_url'', JStr trimmedUrl)]))))"

text \<open>
  The \<open>try\<close> block after the fetch has settled: the state after the success branch, or
  the error raised. Every \<open>throw\<close> comes before the first state update, so an error
  leaves the state as it was. \<open>data?.success\<close> is tested for truthiness; when it fails,
  \<open>data.message\<close> raises a TypeError for \<open>data = null\<close>.
\<close>

definition handleUrlChange_try :: "jsstring \<Rightarrow> fetch_outcome \<Rightarrow> page \<Rightarrow> message thrown + page" where
  "handleUrlChange_try trimmedUrl outcome s =
     (case outcome of
        Rejects e \<Rightarrow> Inl (map_thrown Text e)
      | Resolves response \<Rightarrow>
          if \<not> ok response then Inl (http_error response)
          else
            (case json_body response of
               NotJson msg \<Rightarrow> Inl (Error (Text msg))
             | Json data \<Rightarrow>
                 if truthy (chain (Some data) (\<lambda>v. get v (js ''success''))) then
                   Inr (s\<lparr>videoUrl := trimmedUrl, urlInput := [],
                          toasts := toasts s @
                            [\<lparr>title = js ''Video processed successfully'',
                              description =
                                (case orElse (get data (js ''message''))
                                        (JStr (js ''Video transcript indexed and ready for questions'')) of
                                   JStr m \<Rightarrow> Text m
                                 | v \<Rightarrow> Raw v),
                              variant = None\<rparr>]\<rparr>)
                 else
                   (case data of
                      JNull \<Rightarrow> Inl (Error (Text (null_property_message ''message'')))
                    | _ \<Rightarrow> Inl (new_Error (orElse (get data (js ''message''))
                                    (JStr (js ''Failed to process video'')))))))"

text \<open>The \<open>catch\<close> and \<open>finally\<close> clauses.\<close>

definition handleUrlChange_settle :: "jsstring \<Rightarrow> fetch_outcome \<Rightarrow> page \<Rightarrow> page" where
  "handleUrlChange_settle trimmedUrl outcome s =
     (let s' =
        (case handleUrlChange_try trimmedUrl outcome s of
           Inr s1 \<Rightarrow> s1
         | Inl error \<Rightarrow>
             s\<lparr>toasts := toasts s @
                 [\<lparr>title = js ''Error processing video'',
                   description = message_of error (js ''Failed to process video. Please try again.''),
                   variant = Some (js ''destructive'')\<rparr>]\<rparr>)
      in s'\<lparr>isLoading := False\<rparr>)"

definition handleUrlChange ::
    "jsstring option \<Rightarrow> (fetch_request \<Rightarrow> fetch_outcome) \<Rightarrow> page \<Rightarrow> page" where
  "handleUrlChange VITE_API_URL fetch s =
     (case handleUrlChange_begin VITE_API_URL s of
        (s', None) \<Rightarrow> s'
      | (s', Some r) \<Rightarrow> handleUrlChange_settle (trim (urlInput s)) (fetch r) s')"

subsection \<open>handleQuestionSubmit\<close>

definition handleQuestionSubmit_begin ::
    "jsstring option \<Rightarrow> jsstring \<Rightarrow> page \<Rightarrow> page \<times> fetch_request" where
  "handleQuestionSubmit_begin VITE_API_URL question s =
     (s\<lparr>isLoading := True, answer := JStr []\<rparr>,
      post (API_URL VITE_API_URL @ js ''/ask-question'') (JObj [(js ''question'', JStr question)]))"

definition handleQuestionSubmit_try :: "fetch_outcome \<Rightarrow> page \<Rightarrow> message thrown + page" where
  "handleQuestionSubmit_try outcome s =
     (case outcome of
        Rejects e \<Rightarrow> Inl (map_thrown Text e)
      | Resolves response \<Rightarrow>
          if \<not> ok response then Inl (http_error response)
          else
            (case json_body response of
               NotJson msg \<Rightarrow> Inl (Error (Text msg))
             | Json data \<Rightarrow>
                 (case chain (Some data) (\<lambda>v. get v (js ''answer'')) of
                    None \<Rightarrow> Inl (Error (Text (js ''No answer received'')))
                  | Some a \<Rightarrow>
                      if truthy (Some a) then Inr (s\<lparr>answer := a\<rparr>)
                      else Inl (Error (Text (js ''No answer received''))))))"

definition handleQuestionSubmit_settle :: "fetch_outcome \<Rightarrow> page \<Rightarrow> page" where
  "handleQuestionSubmit_settle outcome s =
     (let s' =
        (case handleQuestionSubmit_try outcome s of
           Inr s1 \<Rightarrow> s1
         | Inl error \<Rightarrow>
             s\<lparr>toasts := toasts s @
                 [\<lparr>title = js ''Error'',
                   description = message_of error (js ''Failed to get an answer. Please try again.''),
                   variant = Some (js ''destructive'')\<rparr>]\<rparr>)
      in s'\<lparr>isLoading := False\<rparr>)"

definition handleQuestionSubmit ::
    "jsstring option \<Rightarrow> (fetch_request \<Rightarrow> fetch_outcome) \<Rightarrow> jsstring \<Rightarrow> page \<Rightarrow> page" where
  "handleQuestionSubmit VITE_API_URL fetch question s =
     (case handleQuestionSubmit_begin VITE_API_URL question s of
        (s', r) \<Rightarrow> handleQuestionSubmit_settle (fetch r) s')"

text \<open>
  The outcomes the specification calls failures of a submission: a rejected fetch, a
  response outside 200..299, a body that is not JSON, or a body without the field that
  marks success (a truthy \<open>answer\<close> for a question, a truthy \<open>success\<close> for a video).
\<close>

definition failed :: "jsstring \<Rightarrow> fetch_outcome \<Rightarrow> bool" where
  "failed field outcome =
     (case outcome of
        Rejects e \<Rightarrow> True
      | Resolves response \<Rightarrow>
          status response < 200 \<or> 299 < status response \<or>
          (case json_body response of
             NotJson msg \<Rightarrow> True
           | Json (JObj kvs) \<Rightarrow> \<not> truthy (map_of kvs field)
           | Json v \<Rightarrow> True))"

section \<open>The suggestions carousel (VideoSuggestions)\<close>

record suggestions =
  startIndex :: int
  suggestedVideos :: "json list"
  loadingVideos :: bool

definition VIDEOS_TO_SHOW :: int where
  "VIDEOS_TO_SHOW = 3"

definition initial_suggestions :: suggestions where
  "initial_suggestions = \<lparr>startIndex = 0, suggestedVideos = [], loadingVideos = False\<rparr>"

definition isArray :: "json option \<Rightarrow> bool" where
  "isArray v = (case v of Some (JArr xs) \<Rightarrow> True | _ \<Rightarrow> False)"

text \<open>
  The effect \<open>fetchSuggestedVideos\<close>, run when \<open>currentVideoUrl\<close> changes. Up to the
  \<open>await fetch(url)\<close>: the loading flag is set and the request URL is built from the
  identifier of the current video (\<open>currentVideoUrl\<close> is optional; an absent or empty
  one is falsy).
\<close>

definition fetchSuggestedVideos_begin ::
    "jsstring option \<Rightarrow> jsstring option \<Rightarrow> suggestions \<Rightarrow> suggestions \<times> fetch_request" where
  "fetchSuggestedVideos_begin VITE_API_URL currentVideoUrl s =
     (let videoId =
            (case currentVideoUrl of
               Some u \<Rightarrow> if u \<noteq> [] then extractVideoId u else None
             | None \<Rightarrow> None);
          u = (case videoId of
                 Some v \<Rightarrow>
                   if v \<noteq> [] then API_URL VITE_API_URL @ js ''/suggested-videos?video_id='' @ v
                   else API_URL VITE_API_URL @ js ''/suggested-videos''
               | None \<Rightarrow> API_URL VITE_API_URL @ js ''/suggested-videos'')
      in (s\<lparr>loadingVideos := True\<rparr>,
          \<lparr>url = u, http_method = js ''GET'', headers = [], payload = None\<rparr>))"

text \<open>
  After the fetch has settled. The list and \<open>startIndex\<close> are set inside
  \<open>if (response.ok)\<close> and \<open>if (data?.videos && Array.isArray(data.videos))\<close>; the
  \<open>catch\<close> clause only logs; \<open>finally\<close> clears the loading flag.
\<close>

definition fetchSuggestedVideos_settle :: "fetch_outcome \<Rightarrow> suggestions \<Rightarrow> suggestions" where
  "fetchSuggestedVideos_settle outcome s =
     (let s' =
        (case outcome of
           Rejects e \<Rightarrow> s
         | Resolves response \<Rightarrow>
             if ok response then
               (case json_body response of
                  NotJson msg \<Rightarrow> s
                | Json data \<Rightarrow>
                    (let videos = chain (Some data) (\<lambda>v. get v (js ''videos''))
                     in if truthy videos \<and> isArray videos then
                          (case videos of
                             Some (JArr vs) \<Rightarrow> s\<lparr>suggestedVideos := vs, startIndex := 0\<rparr>
                           | _ \<Rightarrow> s)
                        else s))
             else s)
      in s'\<lparr>loadingVideos := False\<rparr>)"

definition fetchSuggestedVideos ::
    "jsstring option \<Rightarrow> (fetch_request \<Rightarrow> fetch_outcome) \<Rightarrow> jsstring option
     \<Rightarrow> suggestions \<Rightarrow> suggestions" where
  "fetchSuggestedVideos VITE_API_URL fetch currentVideoUrl s =
     (case fetchSuggestedVideos_begin VITE_API_URL currentVideoUrl s of
        (s', r) \<Rightarrow> fetchSuggestedVideos_settle (fetch r) s')"

definition handlePrevious :: "suggestions \<Rightarrow> suggestions" where
  "handlePrevious s =
     s\<lparr>startIndex :=
         (if startIndex s = 0 then int (length (suggestedVideos s)) - VIDEOS_TO_SHOW
          else startIndex s - 1)\<rparr>"

definition handleNext :: "suggestions \<Rightarrow> suggestions" where
  "handleNext s =
     s\<lparr>startIndex :=
         (if startIndex s \<ge> int (length (suggestedVideos s)) - VIDEOS_TO_SHOW then 0
          else startIndex s + 1)\<rparr>"

text \<open>
  The list a fetch delivers, if any: the array \<open>videos\<close> in the body of a response
  with a status in 200..299.
\<close>

definition delivered_videos :: "fetch_outcome \<Rightarrow> json list option" where
  "delivered_videos outcome =
     (case outcome of
        Resolves response \<Rightarrow>
          if 200 \<le> status response \<and> status response \<le> 299 then
            (case json_body response of
               Json (JObj kvs) \<Rightarrow>
                 (case map_of kvs (js ''videos'') of Some (JArr vs) \<Rightarrow> Some vs | _ \<Rightarrow> None)
             | _ \<Rightarrow> None)
          else None
      | Rejects e \<Rightarrow> None)"

section \<open>The question input (QuestionInput)\<close>

record KeyboardEvent =
  key :: jsstring
  shiftKey :: bool
  ctrlKey :: bool
  altKey :: bool
  metaKey :: bool

text \<open>
  The component's own state is the text of the field; \<open>submitted\<close> collects the
  arguments of the calls of \<open>onSubmit\<close>.
\<close>

record question_input =
  question :: jsstring
  submitted :: "jsstring list"

definition handleSubmit :: "bool \<Rightarrow> question_input \<Rightarrow> question_input" where
  "handleSubmit loading s =
     (if trim (question s) \<noteq> [] \<and> \<not> loading then
        s\<lparr>submitted := submitted s @ [trim (question s)], question := []\<rparr>
      else s)"

text \<open>The first component tells whether \<open>e.preventDefault()\<close> was called.\<close>

definition handleKeyPress :: "KeyboardEvent \<Rightarrow> bool \<Rightarrow> question_input \<Rightarrow> bool \<times> question_input" where
  "handleKeyPress e loading s =
     (if key e = js ''Enter'' \<and> \<not> shiftKey e then (True, handleSubmit loading s)
      else (False, s))"

section \<open>Sample inputs\<close>

text \<open>A carousel holding five videos, and the same one scrolled to its last window.\<close>

definition five_videos :: suggestions where
  "five_videos =
     \<lparr>startIndex = 0,
      suggestedVideos =
        [JStr (js ''a''), JStr (js ''b''), JStr (js ''c''), JStr (js ''d''), JStr (js ''e'')],
      loadingVideos = False\<rparr>"

text \<open>A backend that answers every request with status 503 and a body that is not JSON.\<close>

definition unavailable :: "fetch_request \<Rightarrow> fetch_outcome" where
  "unavailable r = Resolves \<lparr>status = 503, json_body = NotJson (js ''Unexpected token'')\<rparr>"

text \<open>A backend that answers every request with a list of two videos.\<close>

definition two_videos :: "fetch_request \<Rightarrow> fetch_outcome" where
  "two_videos r =
     Resolves \<lparr>status = 200,
       json_body = Json (JObj [(js ''videos'', JArr [JStr (js ''x''), JStr (js ''y'')])])\<rparr>"

text \<open>
  A backend answering status 500 with \<open>{detail: "rate limited"}\<close>, and one answering
  status 200 with \<open>{success: false, message: "bad link"}\<close>.
\<close>

definition rate_limited :: "fetch_request \<Rightarrow> fetch_outcome" where
  "rate_limited r =
     Resolves \<lparr>status = 500,
       json_body = Json (JObj [(js ''detail'', JStr (js ''rate limited''))])\<rparr>"

definition bad_link :: "fetch_request \<Rightarrow> fetch_outcome" where
  "bad_link r =
     Resolves \<lparr>status = 200,
       json_body = Json (JObj [(js ''success'', JBool False),
                               (js ''message'', JStr (js ''bad link''))])\<rparr>"

text \<open>A page showing the answer \<open>42\<close> with a new URL typed into the field.\<close>

definition retry_page :: page where
  "retry_page =
     initial_page\<lparr>answer := JStr (js ''42''), urlInput := js '' https://youtu.be/abc''\<rparr>"

text \<open>Enter pressed with Ctrl, and with Shift, on a field holding a question.\<close>

definition ctrl_enter :: KeyboardEvent where
  "ctrl_enter =
     \<lparr>key = js ''Enter'', shiftKey = False, ctrlKey = True, altKey = False, metaKey = False\<rparr>"

definition shift_enter :: KeyboardEvent where
  "shift_enter =
     \<lparr>key = js ''Enter'', shiftKey = True, ctrlKey = False, altKey = False, metaKey = False\<rparr>"

definition typed :: question_input where
  "typed = \<lparr>question = js '' What is this video about? '', submitted = []\<rparr>"

section \<open>Pagination of the carousel\<close>

lemma next_videos [simp]: "suggestedVideos ((handleNext ^^ k) s) = suggestedVideos s"
  by (induction k) (simp_all add: handleNext_def)

lemma previous_videos [simp]: "suggestedVideos ((handlePrevious ^^ k) s) = suggestedVideos s"
  by (induction k) (simp_all add: handlePrevious_def)

lemma next_loading [simp]: "loadingVideos ((handleNext ^^ k) s) = loadingVideos s"
  by (induction k) (simp_all add: handleNext_def)

lemma previous_loading [simp]: "loadingVideos ((handlePrevious ^^ k) s) = loadingVideos s"
  by (induction k) (simp_all add: handlePrevious_def)

lemma next_step:
  "startIndex (handleNext t)
   = (if startIndex t \<ge> int (length (suggestedVideos t)) - 3 then 0 else startIndex t + 1)"
  by (simp add: handleNext_def VIDEOS_TO_SHOW_def)

lemma previous_step:
  "startIndex (handlePrevious t)
   = (if startIndex t = 0 then int (length (suggestedVideos t)) - 3 else startIndex t - 1)"
  by (simp add: handlePrevious_def VIDEOS_TO_SHOW_def)

lemma next_iterated:
  assumes "0 \<le> startIndex s" and "startIndex s \<le> int (length (suggestedVideos s)) - 3"
  shows "startIndex ((handleNext ^^ k) s)
       = (startIndex s + int k) mod (int (length (suggestedVideos s)) - 2)"
proof (induction k)
  case 0
  from assms show ?case by simp
next
  case (Suc k)
  define m where "m = int (length (suggestedVideos s)) - 2"
  define i where "i = (startIndex s + int k) mod m"
  have m: "0 < m" using assms by (simp add: m_def)
  have i: "0 \<le> i" "i < m" using m by (simp_all add: i_def)
  have step: "startIndex ((handleNext ^^ Suc k) s) = (if i \<ge> m - 1 then 0 else i + 1)"
    using Suc by (simp add: next_step m_def i_def)
  have "startIndex s + int (Suc k) = (startIndex s + int k) + 1" by simp
  then have "(startIndex s + int (Suc k)) mod m = (i + 1) mod m"
    unfolding i_def by (simp only: mod_add_left_eq)
  also have "\<dots> = (if i \<ge> m - 1 then 0 else i + 1)"
  proof (cases "i \<ge> m - 1")
    case True
    with i have "i + 1 = m" by simp
    then show ?thesis using True by simp
  next
    case False
    with i show ?thesis by simp
  qed
  finally show ?case using step by (simp add: m_def)
qed

lemma previous_iterated:
  assumes "0 \<le> startIndex s" and "startIndex s \<le> int (length (suggestedVideos s)) - 3"
  shows "startIndex ((handlePrevious ^^ k) s)
       = (startIndex s - int k) mod (int (length (suggestedVideos s)) - 2)"
proof (induction k)
  case 0
  from assms show ?case by simp
next
  case (Suc k)
  define m where "m = int (length (suggestedVideos s)) - 2"
  define i where "i = (startIndex s - int k) mod m"
  have m: "0 < m" using assms by (simp add: m_def)
  have i: "0 \<le> i" "i < m" using m by (simp_all add: i_def)
  have step: "startIndex ((handlePrevious ^^ Suc k) s) = (if i = 0 then m - 1 else i - 1)"
    using Suc by (simp add: previous_step m_def i_def)
  have "startIndex s - int (Suc k) = (startIndex s - int k) - 1" by simp
  then have "(startIndex s - int (Suc k)) mod m = (i - 1) mod m"
    unfolding i_def by (simp only: mod_diff_left_eq)
  also have "\<dots> = (if i = 0 then m - 1 else i - 1)"
  proof (cases "i = 0")
    case True
    have "(- 1) mod m = m - 1" using m by (simp add: zmod_minus1)
    with True show ?thesis by simp
  next
    case False
    with i show ?thesis by simp
  qed
  finally show ?case using step by (simp add: m_def)
qed

text \<open>
  C1, as stated, fails: with five videos the window has the three positions 0, 1, 2, and
  five calls of "next" from position 0 end at position 2.
\<close>

theorem next_five_times_counterexample:
  "3 < length (suggestedVideos five_videos)
   \<and> startIndex ((handleNext ^^ length (suggestedVideos five_videos)) five_videos) = 2
   \<and> startIndex five_videos = 0"
  by (simp add: five_videos_def handleNext_def VIDEOS_TO_SHOW_def eval_nat_numeral)

text \<open>
  C1, amended: for a list of length \<open>L > 3\<close> and a start index between 0 and \<open>L - 3\<close>,
  calling "next" \<open>L - 2\<close> times (once per window position) returns \<open>startIndex\<close> to
  its original value, and so does calling "previous" \<open>L - 2\<close> times.
\<close>

theorem pagination_period:
  assumes "3 < length (suggestedVideos s)"
    and "0 \<le> startIndex s" and "startIndex s \<le> int (length (suggestedVideos s)) - 3"
  shows "startIndex ((handleNext ^^ (length (suggestedVideos s) - 2)) s) = startIndex s
       \<and> startIndex ((handlePrevious ^^ (length (suggestedVideos s) - 2)) s) = startIndex s"
proof -
  define m where "m = int (length (suggestedVideos s)) - 2"
  have k: "int (length (suggestedVideos s) - 2) = m" using assms(1) by (simp add: m_def)
  have r: "0 \<le> startIndex s" "startIndex s < m" using assms by (simp_all add: m_def)
  have "startIndex ((handleNext ^^ (length (suggestedVideos s) - 2)) s) = (startIndex s + m) mod m"
    using next_iterated [OF assms(2,3)] k by (simp add: m_def)
  moreover have "startIndex ((handlePrevious ^^ (length (suggestedVideos s) - 2)) s) = (startIndex s - m) mod m"
    using previous_iterated [OF assms(2,3)] k by (simp add: m_def)
  ultimately show ?thesis using r by simp
qed

theorem pagination_period_witness:
  "3 < length (suggestedVideos five_videos)
   \<and> 0 \<le> startIndex five_videos
   \<and> startIndex five_videos \<le> int (length (suggestedVideos five_videos)) - 3
   \<and> startIndex ((handleNext ^^ 3) five_videos) = startIndex five_videos
   \<and> startIndex ((handlePrevious ^^ 3) five_videos) = startIndex five_videos"
proof -
  have h: "3 < length (suggestedVideos five_videos)" "0 \<le> startIndex five_videos"
    "startIndex five_videos \<le> int (length (suggestedVideos five_videos)) - 3"
    by (simp_all add: five_videos_def)
  have n: "length (suggestedVideos five_videos) - 2 = 3" by (simp add: five_videos_def)
  show ?thesis using h pagination_period [OF h] unfolding n by simp
qed

text \<open>
  C9: for a list of length \<open>L > 3\<close> and a start index between 0 and \<open>L - 3\<close>, "next"
  followed by "previous" and "previous" followed by "next" both leave the state as it was.
\<close>

theorem pagination_inverse:
  assumes "3 < length (suggestedVideos s)"
    and "0 \<le> startIndex s" and "startIndex s \<le> int (length (suggestedVideos s)) - 3"
  shows "handlePrevious (handleNext s) = s \<and> handleNext (handlePrevious s) = s"
  using assms by (simp add: handlePrevious_def handleNext_def VIDEOS_TO_SHOW_def)

theorem pagination_inverse_witness:
  "3 < length (suggestedVideos (five_videos\<lparr>startIndex := 2\<rparr>))
   \<and> 0 \<le> startIndex (five_videos\<lparr>startIndex := 2\<rparr>)
   \<and> startIndex (five_videos\<lparr>startIndex := 2\<rparr>)
        \<le> int (length (suggestedVideos (five_videos\<lparr>startIndex := 2\<rparr>))) - 3
   \<and> handlePrevious (handleNext (five_videos\<lparr>startIndex := 2\<rparr>)) = five_videos\<lparr>startIndex := 2\<rparr>
   \<and> handleNext (handlePrevious (five_videos\<lparr>startIndex := 2\<rparr>)) = five_videos\<lparr>startIndex := 2\<rparr>"
proof -
  have h: "3 < length (suggestedVideos (five_videos\<lparr>startIndex := 2\<rparr>))"
    "0 \<le> startIndex (five_videos\<lparr>startIndex := 2\<rparr>)"
    "startIndex (five_videos\<lparr>startIndex := 2\<rparr>)
        \<le> int (length (suggestedVideos (five_videos\<lparr>startIndex := 2\<rparr>))) - 3"
    by (simp_all add: five_videos_def)
  show ?thesis using h pagination_inverse [OF h] by simp
qed

section \<open>Identifier extraction\<close>

text \<open>
  C2: the two extractors do not agree on every input. On the URL form
  \<open>https://www.youtube.com/v/<id>\<close> the player's \<open>getVideoId\<close> returns the
  identifier (its pattern has the \<open>v/\<close> alternative) while the carousel's
  \<open>extractVideoId\<close> returns \<open>null\<close> (none of its three patterns covers that form).
\<close>

theorem extractors_disagree:
  "getVideoId (js ''https://www.youtube.com/v/dQw4w9WgXcQ'') = Inr (Some (js ''dQw4w9WgXcQ''))
   \<and> extractVideoId (js ''https://www.youtube.com/v/dQw4w9WgXcQ'') = None"
  by code_simp

text \<open>C7: both extractors return the identifier of the literal watch URL.\<close>

theorem default_url_identifier:
  "getVideoId (js ''https://www.youtube.com/watch?v=dQw4w9WgXcQ'') = Inr (Some (js ''dQw4w9WgXcQ''))
   \<and> extractVideoId (js ''https://www.youtube.com/watch?v=dQw4w9WgXcQ'') = Some (js ''dQw4w9WgXcQ'')"
  by code_simp

section \<open>Refetching the suggestions\<close>

lemma settle_delivered:
  "fetchSuggestedVideos_settle outcome s
     = (case delivered_videos outcome of
          Some vs \<Rightarrow> s\<lparr>suggestedVideos := vs, startIndex := 0, loadingVideos := False\<rparr>
        | None \<Rightarrow> s\<lparr>loadingVideos := False\<rparr>)"
proof (cases outcome)
  case (Rejects e)
  then show ?thesis by (simp add: fetchSuggestedVideos_settle_def delivered_videos_def)
next
  case (Resolves response)
  show ?thesis
  proof (cases "json_body response")
    case (NotJson msg)
    with Resolves show ?thesis
      by (simp add: fetchSuggestedVideos_settle_def delivered_videos_def ok_def)
  next
    case (Json data)
    with Resolves show ?thesis
      by (cases data)
         (auto simp: fetchSuggestedVideos_settle_def delivered_videos_def ok_def isArray_def
               split: option.splits json.splits)
  qed
qed

text \<open>
  C3, as stated, fails: a refetch answered with status 503 leaves a carousel scrolled to
  index 2 at index 2.
\<close>

theorem refetch_not_ok_counterexample:
  "startIndex (fetchSuggestedVideos None unavailable (Some DEFAULT_VIDEO_URL)
      (five_videos\<lparr>startIndex := 2\<rparr>)) = 2"
  by (simp add: fetchSuggestedVideos_def fetchSuggestedVideos_begin_def
        fetchSuggestedVideos_settle_def unavailable_def ok_def five_videos_def Let_def)

text \<open>
  C3, amended: a refetch sets \<open>startIndex\<close> to 0, and stores the new list, when the
  fetch resolves with an OK status and a JSON body whose \<open>videos\<close> is an array; on any
  other outcome (a status that is not OK, a rejected fetch, a body that is not JSON or
  has no array \<open>videos\<close>) \<open>startIndex\<close> and the list keep their values. The loading
  flag is cleared in every case.
\<close>

theorem refetch_resets_when_delivered:
  "(\<forall>vs. delivered_videos (fetch (snd (fetchSuggestedVideos_begin V cur s))) = Some vs
        \<longrightarrow> startIndex (fetchSuggestedVideos V fetch cur s) = 0
          \<and> suggestedVideos (fetchSuggestedVideos V fetch cur s) = vs)
   \<and> (delivered_videos (fetch (snd (fetchSuggestedVideos_begin V cur s))) = None
        \<longrightarrow> startIndex (fetchSuggestedVideos V fetch cur s) = startIndex s
          \<and> suggestedVideos (fetchSuggestedVideos V fetch cur s) = suggestedVideos s)
   \<and> loadingVideos (fetchSuggestedVideos V fetch cur s) = False"
proof -
  obtain s' r where b: "fetchSuggestedVideos_begin V cur s = (s', r)"
    by (cases "fetchSuggestedVideos_begin V cur s")
  then have s': "s' = s\<lparr>loadingVideos := True\<rparr>"
    by (auto simp: fetchSuggestedVideos_begin_def Let_def)
  have f: "fetchSuggestedVideos V fetch cur s = fetchSuggestedVideos_settle (fetch r) s'"
    using b by (simp add: fetchSuggestedVideos_def)
  have r: "snd (fetchSuggestedVideos_begin V cur s) = r"
    using b by simp
  show ?thesis
    unfolding f r settle_delivered [of "fetch r" s']
    by (cases "delivered_videos (fetch r)") (simp_all add: s')
qed

theorem refetch_resets_when_delivered_witness:
  "delivered_videos (two_videos (snd (fetchSuggestedVideos_begin None (Some DEFAULT_VIDEO_URL)
        (five_videos\<lparr>startIndex := 2\<rparr>)))) = Some [JStr (js ''x''), JStr (js ''y'')]
   \<and> startIndex (fetchSuggestedVideos None two_videos (Some DEFAULT_VIDEO_URL)
        (five_videos\<lparr>startIndex := 2\<rparr>)) = 0
   \<and> suggestedVideos (fetchSuggestedVideos None two_videos (Some DEFAULT_VIDEO_URL)
        (five_videos\<lparr>startIndex := 2\<rparr>)) = [JStr (js ''x''), JStr (js ''y'')]
   \<and> delivered_videos (unavailable (snd (fetchSuggestedVideos_begin None (Some DEFAULT_VIDEO_URL)
        (five_videos\<lparr>startIndex := 2\<rparr>)))) = None
   \<and> startIndex (fetchSuggestedVideos None unavailable (Some DEFAULT_VIDEO_URL)
        (five_videos\<lparr>startIndex := 2\<rparr>)) = 2
   \<and> suggestedVideos (fetchSuggestedVideos None unavailable (Some DEFAULT_VIDEO_URL)
        (five_videos\<lparr>startIndex := 2\<rparr>)) = suggestedVideos five_videos"
proof -
  have d: "delivered_videos (two_videos r) = Some [JStr (js ''x''), JStr (js ''y'')]" for r
    by (simp add: delivered_videos_def two_videos_def)
  have n: "delivered_videos (unavailable r) = None" for r
    by (simp add: delivered_videos_def unavailable_def)
  show ?thesis
    using d n
      refetch_resets_when_delivered
        [of two_videos None "Some DEFAULT_VIDEO_URL" "five_videos\<lparr>startIndex := 2\<rparr>"]
      refetch_resets_when_delivered
        [of unavailable None "Some DEFAULT_VIDEO_URL" "five_videos\<lparr>startIndex := 2\<rparr>"]
    by (simp add: five_videos_def)
qed

section \<open>The answer proxy function\<close>

text \<open>
  C4: a request other than OPTIONS whose body has no non-empty string \<open>question\<close>
  (not JSON, \<open>null\<close>, no such field, an empty string, or a value of another type such
  as the number 123) is answered with status 500 and a body \<open>{error: m}\<close> with \<open>m\<close> a
  string, and nothing is sent to the gateway.
\<close>

theorem malformed_question_rejected:
  assumes "req_method req \<noteq> js ''OPTIONS''"
    and "\<not> has_string_question (req_json req)"
  shows "res_status (fst (serve env fetch req)) = 500
     \<and> (\<exists>m. res_body (fst (serve env fetch req)) = Some (JObj [(js ''error'', JStr m)]))
     \<and> snd (serve env fetch req) = []"
proof -
  have str: "typeof (Some v) = js ''string'' \<Longrightarrow> \<exists>q. v = JStr q" for v
    by (cases v) (simp_all add: js_def cu_def)
  have "\<exists>m. serve_try env fetch req = (Inl m, [])"
  proof (cases "req_json req")
    case (NotJson msg)
    then show ?thesis by (simp add: serve_try_def)
  next
    case (Json b)
    show ?thesis
    proof (cases "get b (js ''question'')")
      case None
      with Json show ?thesis by (cases b) (simp_all add: serve_try_def)
    next
      case (Some question)
      then obtain kvs where b: "b = JObj kvs" by (cases b) simp_all
      have "\<not> truthy (Some question) \<or> typeof (Some question) \<noteq> js ''string''"
      proof (rule ccontr)
        assume "\<not> ?thesis"
        then have t: "truthy (Some question)" and "typeof (Some question) = js ''string''"
          by simp_all
        then obtain q where "question = JStr q" using str by blast
        with t Some b Json assms(2) show False
          by (simp add: has_string_question_def)
      qed
      with Json Some b show ?thesis by (simp add: serve_try_def)
    qed
  qed
  then obtain m where "serve_try env fetch req = (Inl m, [])" ..
  with assms(1) show ?thesis by (simp add: serve_def)
qed

theorem malformed_question_rejected_witness:
  "req_method \<lparr>req_method = js ''POST'',
                req_json = Json (JObj [(js ''question'', JNum 123)])\<rparr> \<noteq> js ''OPTIONS''
   \<and> \<not> has_string_question (Json (JObj [(js ''question'', JNum 123)]))
   \<and> res_status (fst (serve (\<lambda>k. Some (js ''key'')) (\<lambda>r. Rejects NonError)
        \<lparr>req_method = js ''POST'',
         req_json = Json (JObj [(js ''question'', JNum 123)])\<rparr>)) = 500
   \<and> snd (serve (\<lambda>k. Some (js ''key'')) (\<lambda>r. Rejects NonError)
        \<lparr>req_method = js ''POST'',
         req_json = Json (JObj [(js ''question'', JNum 123)])\<rparr>) = []"
  using malformed_question_rejected
    [of "\<lparr>req_method = js ''POST'',
          req_json = Json (JObj [(js ''question'', JNum 123)])\<rparr>"
        "\<lambda>k. Some (js ''key'')" "\<lambda>r. Rejects NonError"]
  by (simp add: has_string_question_def js_def cu_def)

section \<open>Submissions of the page controller\<close>

text \<open>
  The failure predicate of the specification is exactly the set of outcomes on which the
  \<open>try\<close> block of each handler raises.
\<close>

lemma question_try_failed:
  "(\<exists>e. handleQuestionSubmit_try outcome s = Inl e) \<longleftrightarrow> failed (js ''answer'') outcome"
proof (cases outcome)
  case (Rejects e)
  then show ?thesis by (simp add: handleQuestionSubmit_try_def failed_def)
next
  case (Resolves response)
  show ?thesis
  proof (cases "json_body response")
    case (NotJson msg)
    with Resolves show ?thesis
      by (simp add: handleQuestionSubmit_try_def failed_def ok_def)
  next
    case (Json data)
    with Resolves show ?thesis
      by (cases data)
         (auto simp: handleQuestionSubmit_try_def failed_def ok_def split: option.splits)
  qed
qed

lemma url_try_failed:
  "(\<exists>e. handleUrlChange_try u outcome s = Inl e) \<longleftrightarrow> failed (js ''success'') outcome"
proof (cases outcome)
  case (Rejects e)
  then show ?thesis by (simp add: handleUrlChange_try_def failed_def)
next
  case (Resolves response)
  show ?thesis
  proof (cases "json_body response")
    case (NotJson msg)
    with Resolves show ?thesis
      by (simp add: handleUrlChange_try_def failed_def ok_def)
  next
    case (Json data)
    with Resolves show ?thesis
      by (cases data)
         (auto simp: handleUrlChange_try_def failed_def ok_def split: option.splits)
  qed
qed

lemma question_settle_loading: "isLoading (handleQuestionSubmit_settle outcome s) = False"
  by (simp add: handleQuestionSubmit_settle_def Let_def)

lemma question_settle_failed:
  assumes "failed (js ''answer'') outcome"
  shows "answer (handleQuestionSubmit_settle outcome s) = answer s"
proof -
  from assms obtain e where "handleQuestionSubmit_try outcome s = Inl e"
    using question_try_failed [of outcome s] by blast
  then show ?thesis by (simp add: handleQuestionSubmit_settle_def)
qed

text \<open>
  C5: after a question submission the loading flag is false whatever the outcome of the
  request, and when the request failed the displayed answer is empty.
\<close>

theorem question_submit_clears_loading:
  "isLoading (handleQuestionSubmit V fetch q s) = False
   \<and> (failed (js ''answer'') (fetch (snd (handleQuestionSubmit_begin V q s)))
        \<longrightarrow> answer (handleQuestionSubmit V fetch q s) = JStr [])"
  by (simp add: handleQuestionSubmit_def handleQuestionSubmit_begin_def
        question_settle_loading question_settle_failed)

theorem question_submit_clears_loading_witness:
  "failed (js ''answer'') (rate_limited (snd (handleQuestionSubmit_begin None (js ''why?'')
       (initial_page\<lparr>answer := JStr (js ''42'')\<rparr>))))
   \<and> isLoading (handleQuestionSubmit None rate_limited (js ''why?'')
       (initial_page\<lparr>answer := JStr (js ''42'')\<rparr>)) = False
   \<and> answer (handleQuestionSubmit None rate_limited (js ''why?'')
       (initial_page\<lparr>answer := JStr (js ''42'')\<rparr>)) = JStr []"
proof -
  have h: "failed (js ''answer'') (rate_limited (snd (handleQuestionSubmit_begin None (js ''why?'')
       (initial_page\<lparr>answer := JStr (js ''42'')\<rparr>))))"
    by (simp add: failed_def rate_limited_def)
  show ?thesis
    using h question_submit_clears_loading
      [of None rate_limited "js ''why?''" "initial_page\<lparr>answer := JStr (js ''42'')\<rparr>"]
    by simp
qed

lemma url_settle_failed:
  assumes "failed (js ''success'') outcome"
  shows "videoUrl (handleUrlChange_settle u outcome s) = videoUrl s
       \<and> urlInput (handleUrlChange_settle u outcome s) = urlInput s"
proof -
  from assms obtain e where "handleUrlChange_try u outcome s = Inl e"
    using url_try_failed [of u outcome s] by blast
  then show ?thesis by (simp add: handleUrlChange_settle_def)
qed

lemma url_try_answer: "handleUrlChange_try u outcome s = Inr s1 \<Longrightarrow> answer s1 = answer s"
  by (auto simp: handleUrlChange_try_def split: fetch_outcome.splits if_splits body.splits json.splits)

lemma url_settle_answer: "answer (handleUrlChange_settle u outcome s) = answer s"
  by (cases "handleUrlChange_try u outcome s")
     (auto simp: handleUrlChange_settle_def dest: url_try_answer)

lemma url_begin_frame:
  "videoUrl (fst (handleUrlChange_begin V s)) = videoUrl s
   \<and> urlInput (fst (handleUrlChange_begin V s)) = urlInput s"
  by (simp add: handleUrlChange_begin_def Let_def)

lemma retry_trim: "trim (urlInput retry_page) = js ''https://youtu.be/abc''"
  by code_simp

lemma retry_valid: "isValidYouTubeUrl (js ''https://youtu.be/abc'')"
  by code_simp

lemma retry_request:
  "snd (handleUrlChange_begin None retry_page)
     = Some (post (js ''http://localhost:8000/process-video'')
               (JObj [(js ''video_url'', JStr (js ''https://youtu.be/abc''))]))"
  by code_simp

text \<open>
  C6: when the request of a video submission fails (a rejected fetch, a status outside
  200..299, a body that is not JSON or whose \<open>success\<close> is not truthy), the active
  video URL and the URL input field are the same after the submission as before it.
\<close>

theorem failed_video_submission_frame:
  assumes "snd (handleUrlChange_begin V s) = Some r"
    and "failed (js ''success'') (fetch r)"
  shows "videoUrl (handleUrlChange V fetch s) = videoUrl s
       \<and> urlInput (handleUrlChange V fetch s) = urlInput s"
proof -
  obtain s' where b: "handleUrlChange_begin V s = (s', Some r)"
    using assms(1) by (cases "handleUrlChange_begin V s") simp
  then have "videoUrl s' = videoUrl s \<and> urlInput s' = urlInput s"
    using url_begin_frame [of V s] by simp
  with b assms(2) show ?thesis
    by (simp add: handleUrlChange_def url_settle_failed)
qed

theorem failed_video_submission_frame_witness:
  "snd (handleUrlChange_begin None retry_page)
     = Some (post (js ''http://localhost:8000/process-video'')
               (JObj [(js ''video_url'', JStr (js ''https://youtu.be/abc''))]))
   \<and> failed (js ''success'') (bad_link (post (js ''http://localhost:8000/process-video'')
               (JObj [(js ''video_url'', JStr (js ''https://youtu.be/abc''))])))
   \<and> videoUrl (handleUrlChange None bad_link retry_page) = DEFAULT_VIDEO_URL
   \<and> urlInput (handleUrlChange None bad_link retry_page) = js '' https://youtu.be/abc''"
proof -
  have f: "failed (js ''success'') (bad_link (post (js ''http://localhost:8000/process-video'')
               (JObj [(js ''video_url'', JStr (js ''https://youtu.be/abc''))])))"
    by (simp add: failed_def bad_link_def)
  have v: "videoUrl retry_page = DEFAULT_VIDEO_URL" "urlInput retry_page = js '' https://youtu.be/abc''"
    by (simp_all add: retry_page_def initial_page_def)
  show ?thesis
    using failed_video_submission_frame [where fetch = bad_link, OF retry_request f] retry_request f v
    by simp
qed

text \<open>
  C10: for a valid URL in the field, the displayed answer is already empty when the
  request is sent, and it is empty after the submission whatever the outcome; after a
  failed submission the answer is gone although the active video is unchanged.
\<close>

theorem valid_url_clears_answer:
  assumes "trim (urlInput s) \<noteq> []" and "isValidYouTubeUrl (trim (urlInput s))"
  shows "answer (fst (handleUrlChange_begin V s)) = JStr []
       \<and> snd (handleUrlChange_begin V s) \<noteq> None
       \<and> answer (handleUrlChange V fetch s) = JStr []
       \<and> (\<forall>r. snd (handleUrlChange_begin V s) = Some r \<and> failed (js ''success'') (fetch r)
            \<longrightarrow> videoUrl (handleUrlChange V fetch s) = videoUrl s)"
  using assms
  by (simp add: handleUrlChange_def handleUrlChange_begin_def Let_def url_settle_answer
        url_settle_failed)

theorem valid_url_clears_answer_witness:
  "trim (urlInput retry_page) \<noteq> [] \<and> isValidYouTubeUrl (trim (urlInput retry_page))
   \<and> answer retry_page = JStr (js ''42'')
   \<and> answer (fst (handleUrlChange_begin None retry_page)) = JStr []
   \<and> answer (handleUrlChange None bad_link retry_page) = JStr []
   \<and> videoUrl (handleUrlChange None bad_link retry_page) = videoUrl retry_page"
proof -
  have h: "trim (urlInput retry_page) \<noteq> []" "isValidYouTubeUrl (trim (urlInput retry_page))"
    using retry_valid by (simp_all add: retry_trim js_def cu_def)
  have f: "failed (js ''success'') (bad_link r)" for r
    by (simp add: failed_def bad_link_def)
  have a: "answer retry_page = JStr (js ''42'')"
    by (simp add: retry_page_def)
  show ?thesis
    using h a f retry_request valid_url_clears_answer [OF h, of None bad_link] by simp
qed

section \<open>The question input\<close>

text \<open>
  C8, as stated, fails: Enter pressed with the Ctrl key held submits the question; the
  handler looks at the Shift key only.
\<close>

theorem ctrl_enter_submits_counterexample:
  "ctrlKey ctrl_enter
   \<and> submitted (snd (handleKeyPress ctrl_enter False typed)) = [js ''What is this video about?'']"
  by code_simp

text \<open>
  C8, amended: the question input submits the trimmed question and clears its field
  exactly when the user presses Enter without the Shift key (Ctrl, Alt and Meta are not
  looked at) or uses the explicit submit action, while the field is non-empty after
  trimming and no request is loading; in every other case, an Enter keypress with Shift
  held among them, nothing is submitted and the field keeps its text.
\<close>

theorem enter_without_shift_submits:
  "(key e = js ''Enter'' \<and> \<not> shiftKey e \<and> trim (question s) \<noteq> [] \<and> \<not> loading
      \<longrightarrow> submitted (snd (handleKeyPress e loading s)) = submitted s @ [trim (question s)]
          \<and> question (snd (handleKeyPress e loading s)) = [])
   \<and> (\<not> (key e = js ''Enter'' \<and> \<not> shiftKey e \<and> trim (question s) \<noteq> [] \<and> \<not> loading)
      \<longrightarrow> snd (handleKeyPress e loading s) = s)
   \<and> (trim (question s) \<noteq> [] \<and> \<not> loading
      \<longrightarrow> submitted (handleSubmit loading s) = submitted s @ [trim (question s)]
          \<and> question (handleSubmit loading s) = [])
   \<and> (\<not> (trim (question s) \<noteq> [] \<and> \<not> loading) \<longrightarrow> handleSubmit loading s = s)"
  by (simp add: handleKeyPress_def handleSubmit_def)

theorem enter_without_shift_submits_witness:
  "key ctrl_enter = js ''Enter'' \<and> \<not> shiftKey ctrl_enter \<and> trim (question typed) \<noteq> []
   \<and> submitted (snd (handleKeyPress ctrl_enter False typed)) = [js ''What is this video about?'']
   \<and> question (snd (handleKeyPress ctrl_enter False typed)) = []
   \<and> snd (handleKeyPress shift_enter False typed) = typed"
proof -
  have t: "trim (question typed) = js ''What is this video about?''"
    by code_simp
  have h: "key ctrl_enter = js ''Enter''" "\<not> shiftKey ctrl_enter" "key shift_enter = js ''Enter''"
    "shiftKey shift_enter" "submitted typed = []" "js ''What is this video about?'' \<noteq> []"
    by (simp_all add: ctrl_enter_def shift_enter_def typed_def js_def cu_def)
  show ?thesis
    using h t enter_without_shift_submits [of ctrl_enter typed False]
      enter_without_shift_submits [of shift_enter typed False]
    by simp
qed

end
